theory Spec2Isabelle
  imports Complex_Main "HOL-Library.Log_Nat"
begin

section \<open>Python values used by the analyzer\<close>

text \<open>
  A Python \<open>str\<close> is modelled as a \<open>string\<close>, one \<open>char\<close> per code point (the code
  points up to 255), so that \<open>length\<close> and \<open>take\<close> count what \<open>len\<close> and slicing count.
  The sharp s of the German example is the code point \<open>0xDF\<close>.

  A Python \<open>float\<close> is modelled by the decimal number it is written as, its shortest
  \<open>repr\<close>: \<open>Float x\<close> for a rational \<open>x\<close>, and \<open>NegZero\<close> for the float \<open>-0.0\<close>, which
  compares like zero and prints with its sign. Float literals of the source (\<open>0.1\<close>,
  \<open>-0.1\<close>) denote the decimal written. Two floats compare as their written decimals do,
  so the comparisons of the source are comparisons of these decimals; rounding works on
  the binary value that the float stores, \<open>binary_value x\<close> below. Not-a-number and the
  infinities are left out: the polarity and subjectivity of the scoring library are finite,
  in \<open>[-1.0, 1.0]\<close> and \<open>[0.0, 1.0]\<close>.
\<close>

datatype pyfloat = Float rat | NegZero

fun fval :: "pyfloat \<Rightarrow> rat" where
  "fval (Float x) = x"
| "fval NegZero = 0"

text \<open>
  The exceptions that matter to the two \<open>try\<close> blocks: the detection library's own
  \<open>LangDetectException\<close>, the \<open>KeyError\<close> of a dictionary lookup, and any other subclass
  of \<open>Exception\<close>.
\<close>

datatype exn = LangDetectException | KeyError | OtherException

subsection \<open>The built-in \<open>round(x, 2)\<close>\<close>

text \<open>
  The float that is written as the decimal \<open>x\<close> is the binary double nearest to \<open>x\<close>:
  a significand of 53 bits, rounded to nearest with a tie going to the even significand,
  and an exponent of at least \<open>-1074\<close>. \<open>binary_value x\<close> is the exact value of that
  double: \<open>0.325\<close> is stored as a little more than \<open>0.325\<close>, \<open>0.175\<close> as a little less than
  \<open>0.175\<close>, and \<open>0.125\<close> as itself. \<open>floor_log2 a\<close> is, for a positive \<open>a\<close>, the exponent
  \<open>e\<close> with \<open>2^e \<le> a < 2^(e + 1)\<close>. Overflow to infinity is not modelled.
\<close>

definition pow2 :: "int \<Rightarrow> rat" where
  "pow2 e = (if 0 \<le> e then 2 ^ nat e else 1 / 2 ^ nat (- e))"

definition floor_log2 :: "rat \<Rightarrow> int" where
  "floor_log2 a =
     (let (n, d) = quotient_of a; e = bitlen n - bitlen d
      in if pow2 e \<le> a then e else e - 1)"

definition round_half_even :: "rat \<Rightarrow> int" where
  "round_half_even y =
     (let f = \<lfloor>y\<rfloor>; d = y - of_int f
      in if d < 1 / 2 then f
         else if 1 / 2 < d then f + 1
         else if even f then f else f + 1)"

definition binary_value :: "rat \<Rightarrow> rat" where
  "binary_value x =
     (if x = 0 then 0
      else let a = \<bar>x\<bar>;
               e = max (floor_log2 a - 52) (- 1074);
               m = round_half_even (a / pow2 e)
           in sgn x * of_int m * pow2 e)"

text \<open>
  \<open>round\<close> with two digits rounds the value of the double to the nearest hundredth, a tie
  going to the even neighbour, and returns the float written as that hundredth. The ties
  are the doubles that lie exactly between two hundredths, such as \<open>0.125\<close>; \<open>0.325\<close> is not
  one, and rounds up to \<open>0.33\<close>. The sign of the argument is kept: a negative number that
  rounds to zero gives \<open>-0.0\<close>. Below \<open>10^13\<close> in magnitude, which covers every polarity
  and subjectivity, the hundredth has at most 15 significant digits and is the written
  form of the float nearest to it.
\<close>

fun py_round2 :: "pyfloat \<Rightarrow> pyfloat" where
  "py_round2 NegZero = NegZero"
| "py_round2 (Float x) =
     (let k = round_half_even (binary_value x * 100)
      in if k = 0 \<and> x < 0 then NegZero else Float (of_int k / 100))"

subsection \<open>Formatting inside an f-string\<close>

definition digit_char :: "nat \<Rightarrow> char" where
  "digit_char d = char_of (48 + d)"

fun str_nat :: "nat \<Rightarrow> string" where
  "str_nat n = (if n < 10 then [digit_char n] else str_nat (n div 10) @ [digit_char (n mod 10)])"

declare str_nat.simps [simp del]

definition str_int :: "int \<Rightarrow> string" where
  "str_int i = (if i < 0 then ''-'' @ str_nat (nat (- i)) else str_nat (nat i))"

text \<open>
  \<open>str\<close> of a float, which is what an f-string writes for it, is the shortest decimal
  that reads back as the same float, with at least one digit after the point and none
  added for padding: \<open>0.8\<close> prints as \<open>0.8\<close>, \<open>0.25\<close> as \<open>0.25\<close>, \<open>1.0\<close> as \<open>1.0\<close>. It never
  has more than 17 significant digits. \<open>frac_digits n f\<close> writes the digits of a fraction
  \<open>0 \<le> f < 1\<close> until nothing is left of it, at most \<open>n\<close> of them. The exponent notation
  that Python uses from \<open>10^16\<close> on and below \<open>10^-4\<close> is not modelled: a polarity rounded
  to two digits is zero or at least a hundredth in magnitude.
\<close>

fun frac_digits :: "nat \<Rightarrow> rat \<Rightarrow> string" where
  "frac_digits 0 f = []"
| "frac_digits (Suc n) f =
     (if f = 0 then []
      else let d = \<lfloor>f * 10\<rfloor> in digit_char (nat d) # frac_digits n (f * 10 - of_int d))"

fun str_float :: "pyfloat \<Rightarrow> string" where
  "str_float NegZero = ''-0.0''"
| "str_float (Float x) =
     (let whole = \<lfloor>\<bar>x\<bar>\<rfloor>; f = \<bar>x\<bar> - of_int whole
      in (if x < 0 then ''-'' else '''') @ str_nat (nat whole) @ ''.'' @
         (if f = 0 then ''0'' else frac_digits 17 f))"

text \<open>
  \<open>str.upper\<close> on ASCII text, which is what the three sentiment names are: a lower-case
  letter moves to its capital, every other ASCII character stays.
\<close>

definition upper_char :: "char \<Rightarrow> char" where
  "upper_char c =
     (if (97::nat) \<le> of_char c \<and> of_char c \<le> (122::nat) then char_of (of_char c - (32::nat)) else c)"

definition upper :: "string \<Rightarrow> string" where
  "upper s = map upper_char s"

section \<open>The analyzer\<close>

text \<open>
  The three libraries the analyzer calls are parameters of the model:
  \<^item> \<open>detect\<close>, the language detector: a language code, or an exception;
  \<^item> \<open>translate_text\<close>, the translation client, called with the text, the source and the
    target language: a response dictionary, or an exception;
  \<^item> \<open>text_blob\<close>, the sentiment of a text: its polarity and its subjectivity.
  The diagnostic \<open>print\<close> calls are left out.
\<close>

type_synonym detector = "string \<Rightarrow> exn + string"
type_synonym translator = "string \<Rightarrow> string \<Rightarrow> string \<Rightarrow> exn + (string \<rightharpoonup> string)"
type_synonym scorer = "string \<Rightarrow> pyfloat \<times> pyfloat"

record sentiment_result =
  sentiment :: string
  polarity :: pyfloat
  subjectivity :: pyfloat

record analysis_record =
  original_text :: string
  detected_language :: string
  translated_text :: string
  sentiment_analysis :: sentiment_result

record post_request =
  url :: string
  headers :: "(string \<times> string) list"
  body :: string

definition SUPPORTED_LANGUAGES :: "string list" where
  "SUPPORTED_LANGUAGES = [''de'', ''es'']"

definition detect_language :: "detector \<Rightarrow> string \<Rightarrow> exn + string option" where
  "detect_language detect text =
     (case detect text of
        Inr lang \<Rightarrow> Inr (if lang \<in> set SUPPORTED_LANGUAGES then Some lang else None)
      | Inl LangDetectException \<Rightarrow> Inr None
      | Inl e \<Rightarrow> Inl e)"

text \<open>
  Every exception raised inside the \<open>try\<close> is caught: one raised by the client, and the
  \<open>KeyError\<close> of a response without the key \<open>translatedText\<close>.
\<close>

definition translate_to_english :: "translator \<Rightarrow> string \<Rightarrow> string \<Rightarrow> string" where
  "translate_to_english translate_text text source_language =
     (case translate_text text source_language ''en'' of
        Inr result \<Rightarrow>
          (case result ''translatedText'' of
             Some translated \<Rightarrow> translated
           | None \<Rightarrow> text)
      | Inl e \<Rightarrow> text)"

definition analyze_sentiment :: "scorer \<Rightarrow> string \<Rightarrow> sentiment_result" where
  "analyze_sentiment text_blob text =
     (let (pol, subj) = text_blob text;
          sent = (if 1 / 10 < fval pol then ''positive''
                  else if fval pol < - (1 / 10) then ''negative''
                  else ''neutral'')
      in \<lparr>sentiment = sent, polarity = py_round2 pol, subjectivity = py_round2 subj\<rparr>)"

text \<open>
  \<open>if not lang\<close> holds for \<open>None\<close> and for the empty string. An exception that
  \<open>detect_language\<close> lets through ends \<open>process_comment\<close> as well.
\<close>

definition process_comment ::
  "detector \<Rightarrow> translator \<Rightarrow> scorer \<Rightarrow> string \<Rightarrow> exn + analysis_record option" where
  "process_comment detect translate_text text_blob comment_text =
     (case detect_language detect comment_text of
        Inl e \<Rightarrow> Inl e
      | Inr None \<Rightarrow> Inr None
      | Inr (Some lang) \<Rightarrow>
          if lang = [] then Inr None
          else
            let translated = translate_to_english translate_text comment_text lang;
                sentiment_result = analyze_sentiment text_blob translated
            in Inr (Some \<lparr>original_text = comment_text,
                          detected_language = lang,
                          translated_text = translated,
                          sentiment_analysis = sentiment_result\<rparr>))"

subsection \<open>The report\<close>

text \<open>The four values computed for a record in the body of the loop.\<close>

definition row_original :: "analysis_record \<Rightarrow> string" where
  "row_original result =
     (if 50 < length (original_text result) then take 50 (original_text result) @ ''...''
      else original_text result)"

definition row_lang_name :: "analysis_record \<Rightarrow> string" where
  "row_lang_name result = (if detected_language result = ''de'' then ''German'' else ''Spanish'')"

definition row_sentiment :: "analysis_record \<Rightarrow> string" where
  "row_sentiment result = upper (sentiment (sentiment_analysis result))"

definition row_polarity :: "analysis_record \<Rightarrow> pyfloat" where
  "row_polarity result = polarity (sentiment_analysis result)"

definition format_row :: "analysis_record \<Rightarrow> string" where
  "format_row result =
     ''| '' @ row_original result @ '' | '' @ row_lang_name result @ '' | '' @
     row_sentiment result @ '' | '' @ str_float (row_polarity result) @ '' |'' @ [CHR 0x0A]"

definition report_header :: string where
  "report_header =
     ''## Sentiment Analysis Report'' @ [CHR 0x0A, CHR 0x0A] @
     ''| Original | Language | Sentiment | Polarity |'' @ [CHR 0x0A] @
     ''|----------|----------|-----------|----------|'' @ [CHR 0x0A]"

text \<open>The loop appends one row to the body for each record, from first to last.\<close>

fun append_rows :: "string \<Rightarrow> analysis_record list \<Rightarrow> string" where
  "append_rows comment_body [] = comment_body"
| "append_rows comment_body (result # results) =
     append_rows (comment_body @ format_row result) results"

definition comment_body :: "analysis_record list \<Rightarrow> string" where
  "comment_body analysis_results = append_rows report_header analysis_results"

text \<open>
  \<open>post_sentiment_comment\<close> returns nothing; what it does is to send one request, or none.
  The model returns the request that is sent.
\<close>

definition post_sentiment_comment ::
  "string \<Rightarrow> string \<Rightarrow> int \<Rightarrow> analysis_record list \<Rightarrow> post_request option" where
  "post_sentiment_comment github_token repo pr_number analysis_results =
     (if analysis_results = [] then None
      else Some \<lparr>url = ''https://api.github.com/repos/'' @ repo @ ''/issues/'' @
                        str_int pr_number @ ''/comments'',
                 headers = [(''Authorization'', ''token '' @ github_token),
                            (''Accept'', ''application/vnd.github.v3+json'')],
                 body = comment_body analysis_results\<rparr>)"

section \<open>Properties\<close>

subsection \<open>Language detection and the pipeline\<close>

lemma supported_set: "set SUPPORTED_LANGUAGES = {''de'', ''es''}"
  by (simp add: SUPPORTED_LANGUAGES_def)

lemma supported_nonempty: "lang \<in> set SUPPORTED_LANGUAGES \<Longrightarrow> lang \<noteq> []"
  by (auto simp: SUPPORTED_LANGUAGES_def)

lemma detect_language_Some:
  "detect_language detect text = Inr (Some lang) \<longleftrightarrow>
     detect text = Inr lang \<and> lang \<in> set SUPPORTED_LANGUAGES"
  by (auto simp: detect_language_def split: sum.splits exn.splits if_splits)

lemma detect_language_None:
  "detect_language detect text = Inr None \<longleftrightarrow>
     detect text = Inl LangDetectException \<or>
     (\<exists>lang. detect text = Inr lang \<and> lang \<notin> set SUPPORTED_LANGUAGES)"
  by (auto simp: detect_language_def split: sum.splits exn.splits if_splits)

lemma detect_language_raises:
  "detect_language detect text = Inl e \<longleftrightarrow> detect text = Inl e \<and> e \<noteq> LangDetectException"
  by (auto simp: detect_language_def split: sum.splits exn.splits if_splits)

lemma process_comment_Some:
  "detect_language detect text = Inr (Some lang) \<Longrightarrow>
   process_comment detect tr tb text =
     Inr (Some \<lparr>original_text = text, detected_language = lang,
                  translated_text = translate_to_english tr text lang,
                  sentiment_analysis = analyze_sentiment tb (translate_to_english tr text lang)\<rparr>)"
proof -
  assume d: "detect_language detect text = Inr (Some lang)"
  then have "lang \<in> set SUPPORTED_LANGUAGES"
    by (simp add: detect_language_Some)
  then have "lang \<noteq> []"
    by (rule supported_nonempty)
  with d show ?thesis
    by (simp add: process_comment_def Let_def)
qed

text \<open>
  Claim C1. For every comment text, \<open>process_comment\<close> returns \<open>None\<close> exactly when
  \<open>detect_language\<close> returns \<open>None\<close>; and for every text whose detected language is one
  of the supported languages it returns a record whose \<open>detected_language\<close> is the detected
  code, whose \<open>original_text\<close> is the input text unchanged, whose \<open>translated_text\<close> is the
  result of \<open>translate_to_english\<close> for the text and the detected language, and whose
  \<open>sentiment_analysis\<close> is the analysis of the translated text.
\<close>

theorem process_comment_result:
  "(process_comment detect tr tb text = Inr None \<longleftrightarrow> detect_language detect text = Inr None) \<and>
   (\<forall>lang. detect text = Inr lang \<and> lang \<in> set SUPPORTED_LANGUAGES \<longrightarrow>
      process_comment detect tr tb text =
        Inr (Some \<lparr>original_text = text, detected_language = lang,
                     translated_text = translate_to_english tr text lang,
                     sentiment_analysis =
                       analyze_sentiment tb (translate_to_english tr text lang)\<rparr>))"
proof (intro conjI allI impI)
  show "process_comment detect tr tb text = Inr None \<longleftrightarrow> detect_language detect text = Inr None"
  proof (cases "detect_language detect text")
    case (Inl e)
    then show ?thesis by (simp add: process_comment_def)
  next
    case (Inr r)
    show ?thesis
    proof (cases r)
      case None
      with Inr show ?thesis by (simp add: process_comment_def)
    next
      case (Some lang)
      with Inr have "detect_language detect text = Inr (Some lang)" by simp
      then show ?thesis by (simp add: process_comment_Some)
    qed
  qed
next
  fix lang
  assume "detect text = Inr lang \<and> lang \<in> set SUPPORTED_LANGUAGES"
  then have "detect_language detect text = Inr (Some lang)"
    by (simp add: detect_language_Some)
  then show "process_comment detect tr tb text =
        Inr (Some \<lparr>original_text = text, detected_language = lang,
                     translated_text = translate_to_english tr text lang,
                     sentiment_analysis =
                       analyze_sentiment tb (translate_to_english tr text lang)\<rparr>)"
    by (rule process_comment_Some)
qed

theorem process_comment_result_witness:
  "process_comment (\<lambda>t. Inr ''es'') (\<lambda>t s g. Inr [''translatedText'' \<mapsto> ''Very good''])
      (\<lambda>t. (Float 0.91, Float 0.78)) ''Muy bien'' =
   Inr (Some \<lparr>original_text = ''Muy bien'', detected_language = ''es'',
                translated_text = ''Very good'',
                sentiment_analysis =
                  \<lparr>sentiment = ''positive'', polarity = Float 0.91, subjectivity = Float 0.78\<rparr>\<rparr>)"
proof -
  let ?d = "(\<lambda>t. Inr ''es'') :: detector"
  let ?tr = "(\<lambda>t s g. Inr [''translatedText'' \<mapsto> ''Very good'']) :: translator"
  let ?tb = "(\<lambda>t. (Float 0.91, Float 0.78)) :: scorer"
  have h: "?d ''Muy bien'' = Inr ''es'' \<and> ''es'' \<in> set SUPPORTED_LANGUAGES"
    by (simp add: SUPPORTED_LANGUAGES_def)
  have t: "translate_to_english ?tr ''Muy bien'' ''es'' = ''Very good''"
    by (simp add: translate_to_english_def)
  have s: "analyze_sentiment ?tb ''Very good'' =
      \<lparr>sentiment = ''positive'', polarity = Float 0.91, subjectivity = Float 0.78\<rparr>"
    by code_simp
  from process_comment_result [of ?d ?tr ?tb "''Muy bien''"] h
  have "process_comment ?d ?tr ?tb ''Muy bien'' =
        Inr (Some \<lparr>original_text = ''Muy bien'', detected_language = ''es'',
                     translated_text = translate_to_english ?tr ''Muy bien'' ''es'',
                     sentiment_analysis =
                       analyze_sentiment ?tb (translate_to_english ?tr ''Muy bien'' ''es'')\<rparr>)"
    by blast
  then show ?thesis by (simp only: t s)
qed

text \<open>
  Claim C4, as the code has it. The claim ends with "\<open>detect_language\<close> never raises".
  The \<open>except\<close> clause names \<open>LangDetectException\<close> only: a detector that raises any
  other exception makes \<open>detect_language\<close> raise it too.
\<close>

theorem detect_language_never_raises_counterexample:
  "detect_language (\<lambda>t. Inl OtherException) ''abc'' = Inl OtherException"
  by (simp add: detect_language_def)

text \<open>
  Claim C4, amended. For every text, \<open>detect_language\<close> returns a language code
  exactly when the detector returns one of the supported codes \<open>de\<close> and \<open>es\<close>; any other
  detected language gives \<open>None\<close>; the detector's failure \<open>LangDetectException\<close> gives
  \<open>None\<close> as well and is not passed on; and \<open>detect_language\<close> raises exactly when the
  detector raises an exception other than \<open>LangDetectException\<close>, which it passes on
  unchanged.
\<close>

theorem detect_language_result:
  "(\<forall>lang. detect_language detect text = Inr (Some lang) \<longleftrightarrow>
            detect text = Inr lang \<and> lang \<in> {''de'', ''es''}) \<and>
   (\<forall>lang. detect text = Inr lang \<and> lang \<notin> {''de'', ''es''} \<longrightarrow>
            detect_language detect text = Inr None) \<and>
   (detect text = Inl LangDetectException \<longrightarrow> detect_language detect text = Inr None) \<and>
   (\<forall>e. detect_language detect text = Inl e \<longleftrightarrow>
          detect text = Inl e \<and> e \<noteq> LangDetectException)"
proof (intro conjI allI impI)
  fix lang
  show "detect_language detect text = Inr (Some lang) \<longleftrightarrow>
        detect text = Inr lang \<and> lang \<in> {''de'', ''es''}"
    by (simp only: detect_language_Some supported_set)
next
  fix lang
  assume "detect text = Inr lang \<and> lang \<notin> {''de'', ''es''}"
  then have "detect text = Inr lang \<and> lang \<notin> set SUPPORTED_LANGUAGES"
    by (simp add: supported_set)
  then show "detect_language detect text = Inr None"
    unfolding detect_language_None by blast
next
  assume "detect text = Inl LangDetectException"
  then show "detect_language detect text = Inr None"
    unfolding detect_language_None by blast
next
  fix e
  show "detect_language detect text = Inl e \<longleftrightarrow>
        detect text = Inl e \<and> e \<noteq> LangDetectException"
    by (rule detect_language_raises)
qed

theorem detect_language_result_witness:
  "detect_language (\<lambda>t. if t = [] then Inl LangDetectException
                          else if t = ''Hello there'' then Inr ''en'' else Inr ''de'') ''Guten Tag'' =
     Inr (Some ''de'') \<and>
   detect_language (\<lambda>t. if t = [] then Inl LangDetectException
                          else if t = ''Hello there'' then Inr ''en'' else Inr ''de'') ''Hello there'' =
     Inr None \<and>
   detect_language (\<lambda>t. if t = [] then Inl LangDetectException
                          else if t = ''Hello there'' then Inr ''en'' else Inr ''de'') [] =
     Inr None \<and>
   detect_language (\<lambda>t. Inl KeyError) ''Guten Tag'' = Inl KeyError"
proof -
  let ?d = "(\<lambda>t. if t = [] then Inl LangDetectException
                   else if t = ''Hello there'' then Inr ''en'' else Inr ''de'') :: detector"
  let ?f = "(\<lambda>t. Inl KeyError) :: detector"
  have a: "?d ''Guten Tag'' = Inr ''de'' \<and> ''de'' \<in> {''de'', ''es''}" by simp
  have b: "?d ''Hello there'' = Inr ''en'' \<and> ''en'' \<notin> {''de'', ''es''}" by simp
  have c: "?d [] = Inl LangDetectException" by simp
  have e: "?f ''Guten Tag'' = Inl KeyError \<and> KeyError \<noteq> LangDetectException" by simp
  from detect_language_result [of ?d "''Guten Tag''"] a
  have 1: "detect_language ?d ''Guten Tag'' = Inr (Some ''de'')" by blast
  from detect_language_result [of ?d "''Hello there''"] b
  have 2: "detect_language ?d ''Hello there'' = Inr None" by blast
  from detect_language_result [of ?d "[]"] c
  have 3: "detect_language ?d [] = Inr None" by blast
  from detect_language_result [of ?f "''Guten Tag''"] e
  have 4: "detect_language ?f ''Guten Tag'' = Inl KeyError" by blast
  from 1 2 3 4 show ?thesis by blast
qed


subsection \<open>Translation\<close>

lemma translate_to_english_missing_key:
  "tr text lang ''en'' = Inr response \<Longrightarrow> response ''translatedText'' = None \<Longrightarrow>
   translate_to_english tr text lang = text"
  by (simp add: translate_to_english_def)

text \<open>
  Claim C3. For every text whose translation fails, whatever the exception raised,
  \<open>translate_to_english\<close> returns the input text unchanged; and a comment whose language
  was detected as supported then still gets its record, with the untranslated text as
  \<open>translated_text\<close> and the analysis of that text: it is not skipped.
\<close>

theorem translation_failure_fallback:
  "tr text lang ''en'' = Inl e \<Longrightarrow>
   translate_to_english tr text lang = text \<and>
   (detect_language detect text = Inr (Some lang) \<longrightarrow>
      process_comment detect tr tb text =
        Inr (Some \<lparr>original_text = text, detected_language = lang, translated_text = text,
                     sentiment_analysis = analyze_sentiment tb text\<rparr>))"
proof -
  assume f: "tr text lang ''en'' = Inl e"
  then have t: "translate_to_english tr text lang = text"
    by (simp add: translate_to_english_def)
  show ?thesis
  proof (intro conjI impI)
    show "translate_to_english tr text lang = text" by (rule t)
  next
    assume "detect_language detect text = Inr (Some lang)"
    then show "process_comment detect tr tb text =
        Inr (Some \<lparr>original_text = text, detected_language = lang, translated_text = text,
                     sentiment_analysis = analyze_sentiment tb text\<rparr>)"
      using process_comment_Some [of detect "text" lang tr tb] by (simp add: t)
  qed
qed

theorem translation_failure_fallback_witness:
  "translate_to_english (\<lambda>t s g. Inl OtherException) ''Sehr gut'' ''de'' = ''Sehr gut'' \<and>
   process_comment (\<lambda>t. Inr ''de'') (\<lambda>t s g. Inl OtherException)
       (\<lambda>t. (Float 0, Float 0)) ''Sehr gut'' =
     Inr (Some \<lparr>original_text = ''Sehr gut'', detected_language = ''de'',
                  translated_text = ''Sehr gut'',
                  sentiment_analysis =
                    \<lparr>sentiment = ''neutral'', polarity = Float 0, subjectivity = Float 0\<rparr>\<rparr>)"
proof -
  let ?d = "(\<lambda>t. Inr ''de'') :: detector"
  let ?tr = "(\<lambda>t s g. Inl OtherException) :: translator"
  let ?tb = "(\<lambda>t. (Float 0, Float 0)) :: scorer"
  have f: "?tr ''Sehr gut'' ''de'' ''en'' = Inl OtherException" by simp
  have d: "detect_language ?d ''Sehr gut'' = Inr (Some ''de'')" by code_simp
  have s: "analyze_sentiment ?tb ''Sehr gut'' =
      \<lparr>sentiment = ''neutral'', polarity = Float 0, subjectivity = Float 0\<rparr>"
    by code_simp
  from translation_failure_fallback [of ?tr "''Sehr gut''" "''de''" OtherException ?d ?tb, OF f] d
  have "translate_to_english ?tr ''Sehr gut'' ''de'' = ''Sehr gut'' \<and>
        process_comment ?d ?tr ?tb ''Sehr gut'' =
          Inr (Some \<lparr>original_text = ''Sehr gut'', detected_language = ''de'',
                       translated_text = ''Sehr gut'',
                       sentiment_analysis = analyze_sentiment ?tb ''Sehr gut''\<rparr>)"
    by blast
  then show ?thesis by (simp only: s)
qed

subsection \<open>Classification\<close>

lemma analyze_sentiment_sentiment:
  "sentiment (analyze_sentiment tb text) =
     (if 1 / 10 < fval (fst (tb text)) then ''positive''
      else if fval (fst (tb text)) < - (1 / 10) then ''negative''
      else ''neutral'')"
  by (simp add: analyze_sentiment_def Let_def split: prod.splits)

lemma analyze_sentiment_polarity:
  "polarity (analyze_sentiment tb text) = py_round2 (fst (tb text))"
  by (simp add: analyze_sentiment_def Let_def split: prod.splits)

lemma analyze_sentiment_subjectivity:
  "subjectivity (analyze_sentiment tb text) = py_round2 (snd (tb text))"
  by (simp add: analyze_sentiment_def Let_def split: prod.splits)

text \<open>
  Claim C2. The sentiment class is decided by the unrounded polarity alone: above
  \<open>0.10\<close> it is positive, below \<open>-0.10\<close> negative, and neutral in between. At the
  boundaries: \<open>0.10\<close> is neutral, \<open>0.11\<close> positive, \<open>-0.11\<close> negative; \<open>0.104\<close> is positive
  and \<open>0.096\<close> neutral, although both are stored, and so displayed, as the same rounded
  value \<open>0.10\<close>.
\<close>

theorem analyze_sentiment_classification:
  "(1 / 10 < fval (fst (tb text)) \<longrightarrow> sentiment (analyze_sentiment tb text) = ''positive'') \<and>
   (fval (fst (tb text)) < - (1 / 10) \<longrightarrow> sentiment (analyze_sentiment tb text) = ''negative'') \<and>
   (- (1 / 10) \<le> fval (fst (tb text)) \<and> fval (fst (tb text)) \<le> 1 / 10 \<longrightarrow>
      sentiment (analyze_sentiment tb text) = ''neutral'') \<and>
   sentiment (analyze_sentiment (\<lambda>t. (Float 0.10, subj)) text) = ''neutral'' \<and>
   sentiment (analyze_sentiment (\<lambda>t. (Float 0.11, subj)) text) = ''positive'' \<and>
   sentiment (analyze_sentiment (\<lambda>t. (Float (- 0.11), subj)) text) = ''negative'' \<and>
   sentiment (analyze_sentiment (\<lambda>t. (Float 0.104, subj)) text) = ''positive'' \<and>
   sentiment (analyze_sentiment (\<lambda>t. (Float 0.096, subj)) text) = ''neutral'' \<and>
   polarity (analyze_sentiment (\<lambda>t. (Float 0.104, subj)) text) = Float 0.10 \<and>
   polarity (analyze_sentiment (\<lambda>t. (Float 0.096, subj)) text) = Float 0.10 \<and>
   str_float (polarity (analyze_sentiment (\<lambda>t. (Float 0.104, subj)) text)) =
     str_float (polarity (analyze_sentiment (\<lambda>t. (Float 0.096, subj)) text))"
proof -
  have r1: "py_round2 (Float 0.104) = Float 0.10" by code_simp
  have r2: "py_round2 (Float 0.096) = Float 0.10" by code_simp
  have p1: "polarity (analyze_sentiment (\<lambda>t. (Float 0.104, subj)) text) = Float 0.10"
    by (simp only: analyze_sentiment_polarity fst_conv r1)
  have p2: "polarity (analyze_sentiment (\<lambda>t. (Float 0.096, subj)) text) = Float 0.10"
    by (simp only: analyze_sentiment_polarity fst_conv r2)
  have c: "(1 / 10 < fval (fst (tb text)) \<longrightarrow>
              sentiment (analyze_sentiment tb text) = ''positive'') \<and>
           (fval (fst (tb text)) < - (1 / 10) \<longrightarrow>
              sentiment (analyze_sentiment tb text) = ''negative'') \<and>
           (- (1 / 10) \<le> fval (fst (tb text)) \<and> fval (fst (tb text)) \<le> 1 / 10 \<longrightarrow>
              sentiment (analyze_sentiment tb text) = ''neutral'')"
    by (simp add: analyze_sentiment_sentiment)
  have b: "sentiment (analyze_sentiment (\<lambda>t. (Float 0.10, subj)) text) = ''neutral'' \<and>
           sentiment (analyze_sentiment (\<lambda>t. (Float 0.11, subj)) text) = ''positive'' \<and>
           sentiment (analyze_sentiment (\<lambda>t. (Float (- 0.11), subj)) text) = ''negative'' \<and>
           sentiment (analyze_sentiment (\<lambda>t. (Float 0.104, subj)) text) = ''positive'' \<and>
           sentiment (analyze_sentiment (\<lambda>t. (Float 0.096, subj)) text) = ''neutral''"
    by (simp add: analyze_sentiment_sentiment)
  from p1 p2
  have d: "str_float (polarity (analyze_sentiment (\<lambda>t. (Float 0.104, subj)) text)) =
           str_float (polarity (analyze_sentiment (\<lambda>t. (Float 0.096, subj)) text))"
    by (simp only:)
  from c b p1 p2 d show ?thesis by blast
qed

theorem analyze_sentiment_classification_witness:
  "sentiment (analyze_sentiment (\<lambda>t. (Float 0.5, Float 0.3)) ''Good work'') = ''positive'' \<and>
   sentiment (analyze_sentiment (\<lambda>t. (Float (- 0.7), Float 0.9)) ''Bad work'') = ''negative'' \<and>
   sentiment (analyze_sentiment (\<lambda>t. (Float 0.05, Float 0.2)) ''Some work'') = ''neutral''"
proof -
  have p: "1 / 10 < fval (fst ((\<lambda>t. (Float 0.5, Float 0.3)) ''Good work''))" by simp
  have n: "fval (fst ((\<lambda>t. (Float (- 0.7), Float 0.9)) ''Bad work'')) < - (1 / 10)" by simp
  have z: "- (1 / 10) \<le> fval (fst ((\<lambda>t. (Float 0.05, Float 0.2)) ''Some work'')) \<and>
           fval (fst ((\<lambda>t. (Float 0.05, Float 0.2)) ''Some work'')) \<le> 1 / 10" by simp
  from analyze_sentiment_classification [of "\<lambda>t. (Float 0.5, Float 0.3)" "''Good work''"] p
  have 1: "sentiment (analyze_sentiment (\<lambda>t. (Float 0.5, Float 0.3)) ''Good work'') = ''positive''"
    by blast
  from analyze_sentiment_classification [of "\<lambda>t. (Float (- 0.7), Float 0.9)" "''Bad work''"] n
  have 2: "sentiment (analyze_sentiment (\<lambda>t. (Float (- 0.7), Float 0.9)) ''Bad work'') = ''negative''"
    by blast
  from analyze_sentiment_classification [of "\<lambda>t. (Float 0.05, Float 0.2)" "''Some work''"] z
  have 3: "sentiment (analyze_sentiment (\<lambda>t. (Float 0.05, Float 0.2)) ''Some work'') = ''neutral''"
    by blast
  from 1 2 3 show ?thesis by blast
qed

text \<open>
  Claim C9. Subjectivity never influences the class: two runs of \<open>analyze_sentiment\<close>
  in which the scorer reports the same polarity give the same sentiment, whatever the two
  subjectivity values are.
\<close>

theorem classification_ignores_subjectivity:
  "fst (tb1 text1) = fst (tb2 text2) \<Longrightarrow>
   sentiment (analyze_sentiment tb1 text1) = sentiment (analyze_sentiment tb2 text2)"
  by (simp add: analyze_sentiment_sentiment)

theorem classification_ignores_subjectivity_witness:
  "sentiment (analyze_sentiment (\<lambda>t. if t = ''Fine'' then (Float 0.42, Float 0.05) else (Float 0.42, Float 0.95)) ''Fine'') =
   sentiment (analyze_sentiment (\<lambda>t. if t = ''Fine'' then (Float 0.42, Float 0.05) else (Float 0.42, Float 0.95)) ''Lovely'')"
proof -
  let ?tb = "(\<lambda>t. if t = ''Fine'' then (Float 0.42, Float 0.05) else (Float 0.42, Float 0.95)) :: scorer"
  have h: "fst (?tb ''Fine'') = fst (?tb ''Lovely'')" by simp
  show ?thesis
    by (rule classification_ignores_subjectivity [of ?tb "''Fine''" ?tb "''Lovely''", OF h])
qed

subsection \<open>Rounding\<close>

lemma round_half_even_le: "y \<le> of_int c \<Longrightarrow> round_half_even y \<le> c"
proof -
  assume le: "y \<le> of_int c"
  then have fl: "\<lfloor>y\<rfloor> \<le> c" by (simp add: floor_le_iff)
  show ?thesis
  proof (cases "\<lfloor>y\<rfloor> = c")
    case True
    then have "of_int c \<le> y" by (metis of_int_floor_le)
    with le have "y = of_int c" by simp
    then show ?thesis by (simp add: round_half_even_def Let_def)
  next
    case False
    with fl have "\<lfloor>y\<rfloor> + 1 \<le> c" by simp
    with fl show ?thesis by (simp add: round_half_even_def Let_def)
  qed
qed

lemma round_half_even_ge: "of_int c \<le> y \<Longrightarrow> c \<le> round_half_even y"
proof -
  assume "of_int c \<le> y"
  then have "c \<le> \<lfloor>y\<rfloor>" by (simp add: le_floor_iff)
  then show ?thesis by (simp add: round_half_even_def Let_def)
qed

lemma floor_log2_le_0:
  assumes "0 < a" "a \<le> 1"
  shows "floor_log2 a \<le> 0"
proof -
  obtain n d where q: "quotient_of a = (n, d)" by (cases "quotient_of a")
  then have d: "0 < d" by (rule quotient_of_denom_pos)
  from q have a: "a = of_int n / of_int d" by (rule quotient_of_div)
  with assms d have "n \<le> d" by (simp add: field_simps)
  then have "bitlen n \<le> bitlen d"
    by (simp add: bitlen_def floorlog_mono nat_mono)
  then show ?thesis by (simp add: floor_log2_def q Let_def)
qed

lemma pow2_pos: "0 < pow2 e"
  by (simp add: pow2_def)

lemma binary_value_le_1:
  assumes "0 < a" "a \<le> 1"
  shows "0 \<le> binary_value a" "binary_value a \<le> 1"
proof -
  define e where "e = max (floor_log2 a - 52) (- 1074)"
  define m where "m = round_half_even (a / pow2 e)"
  from assms have "floor_log2 a \<le> 0" by (rule floor_log2_le_0)
  then have e: "e < 0" by (simp add: e_def)
  then have p: "pow2 e = 1 / of_int (2 ^ nat (- e))" by (simp add: pow2_def)
  then have "a / pow2 e = a * of_int (2 ^ nat (- e))" by simp
  also from assms have "\<dots> \<le> of_int (2 ^ nat (- e))" by (simp add: mult_le_cancel_right1)
  finally have "m \<le> 2 ^ nat (- e)" unfolding m_def by (rule round_half_even_le)
  then have "rat_of_int m \<le> of_int (2 ^ nat (- e))" by (simp only: of_int_le_iff)
  then have m1: "of_int m * pow2 e \<le> 1" by (simp add: p field_simps)
  from assms pow2_pos [of e] have "of_int 0 \<le> a / pow2 e" by simp
  then have "0 \<le> m" unfolding m_def by (rule round_half_even_ge)
  with pow2_pos [of e] have m0: "0 \<le> of_int m * pow2 e" by simp
  from assms have v: "binary_value a = of_int m * pow2 e"
    by (simp add: binary_value_def Let_def e_def m_def)
  from m0 v show "0 \<le> binary_value a" by simp
  from m1 v show "binary_value a \<le> 1" by simp
qed

lemma binary_value_minus: "binary_value (- x) = - binary_value x"
  by (simp add: binary_value_def Let_def)

lemma binary_value_abs_le_1:
  assumes "- 1 \<le> x" "x \<le> 1"
  shows "- 1 \<le> binary_value x \<and> binary_value x \<le> 1"
proof -
  consider "x = 0" | "0 < x" | "x < 0" by linarith
  then show ?thesis
  proof cases
    case 1
    then show ?thesis by (simp add: binary_value_def)
  next
    case 2
    with assms binary_value_le_1 [of x] show ?thesis by simp
  next
    case 3
    with assms binary_value_le_1 [of "- x"] show ?thesis by (simp add: binary_value_minus)
  qed
qed

lemma py_round2_range:
  assumes "- 1 \<le> fval p" "fval p \<le> 1"
  shows "py_round2 p = NegZero \<or>
         (\<exists>k. - 100 \<le> k \<and> k \<le> 100 \<and> py_round2 p = Float (of_int k / 100))"
proof (cases p)
  case NegZero
  then show ?thesis by simp
next
  case (Float x)
  define k where "k = round_half_even (binary_value x * 100)"
  from Float assms have "- 1 \<le> binary_value x \<and> binary_value x \<le> 1"
    by (simp add: binary_value_abs_le_1)
  then have lo: "of_int (- 100) \<le> binary_value x * 100"
    and hi: "binary_value x * 100 \<le> of_int 100"
    by simp_all
  from lo have "- 100 \<le> k" unfolding k_def by (rule round_half_even_ge)
  moreover from hi have "k \<le> 100" unfolding k_def by (rule round_half_even_le)
  ultimately have "- 100 \<le> k" "k \<le> 100" .
  with Float show ?thesis by (auto simp: Let_def k_def)
qed

lemma py_round2_examples:
  "py_round2 (Float 0.325) = Float 0.33"
  "py_round2 (Float (- 0.175)) = Float (- 0.17)"
  "py_round2 (Float 0.005) = Float 0.01"
  "py_round2 (Float (- 0.005)) = Float (- 0.01)"
  "py_round2 (Float 0.125) = Float 0.12"
  "py_round2 (Float 0.375) = Float 0.38"
  "py_round2 (Float (- 0.004)) = NegZero"
  by code_simp+

text \<open>
  Claim C6, as the code has it. The claim says that the record keeps the unrounded
  polarity and subjectivity and that rounding is left to the report. It does not: for a
  scorer that reports polarity \<open>0.104\<close> and subjectivity \<open>0.456\<close>, the record holds \<open>0.1\<close>
  and \<open>0.46\<close>.
\<close>

theorem record_keeps_unrounded_counterexample:
  "process_comment (\<lambda>t. Inr ''de'') (\<lambda>t s g. Inr [''translatedText'' \<mapsto> ''Good''])
       (\<lambda>t. (Float 0.104, Float 0.456)) ''Gut'' =
     Inr (Some \<lparr>original_text = ''Gut'', detected_language = ''de'', translated_text = ''Good'',
                  sentiment_analysis =
                    \<lparr>sentiment = ''positive'', polarity = Float 0.1, subjectivity = Float 0.46\<rparr>\<rparr>) \<and>
   Float 0.1 \<noteq> Float 0.104 \<and> Float 0.46 \<noteq> Float 0.456"
  by code_simp

text \<open>
  Claim C6, amended. Rounding to two decimals happens in \<open>analyze_sentiment\<close>, after
  the class has been decided on the unrounded polarity: the record that \<open>process_comment\<close>
  returns holds the rounded polarity and the rounded subjectivity of the translated text
  (\<open>round(x, 2)\<close> of the scorer's values), its class is the class of the unrounded
  polarity, and the report row writes the stored polarity as it is, with no rounding of
  its own.
\<close>

theorem rounding_in_analyze_sentiment:
  "process_comment detect tr tb text = Inr (Some r) \<Longrightarrow>
   polarity (sentiment_analysis r) = py_round2 (fst (tb (translated_text r))) \<and>
   subjectivity (sentiment_analysis r) = py_round2 (snd (tb (translated_text r))) \<and>
   sentiment (sentiment_analysis r) =
     (if 1 / 10 < fval (fst (tb (translated_text r))) then ''positive''
      else if fval (fst (tb (translated_text r))) < - (1 / 10) then ''negative''
      else ''neutral'') \<and>
   format_row r =
     ''| '' @ row_original r @ '' | '' @ row_lang_name r @ '' | '' @ row_sentiment r @
     '' | '' @ str_float (polarity (sentiment_analysis r)) @ '' |'' @ [CHR 0x0A]"
proof -
  assume p: "process_comment detect tr tb text = Inr (Some r)"
  have "\<exists>lang. detect_language detect text = Inr (Some lang)"
  proof (cases "detect_language detect text")
    case (Inl e)
    with p show ?thesis by (simp add: process_comment_def)
  next
    case (Inr l)
    with p show ?thesis by (cases l) (simp_all add: process_comment_def)
  qed
  then obtain lang where "detect_language detect text = Inr (Some lang)" ..
  then have "process_comment detect tr tb text =
     Inr (Some \<lparr>original_text = text, detected_language = lang,
                  translated_text = translate_to_english tr text lang,
                  sentiment_analysis = analyze_sentiment tb (translate_to_english tr text lang)\<rparr>)"
    by (rule process_comment_Some)
  with p have r: "r = \<lparr>original_text = text, detected_language = lang,
                  translated_text = translate_to_english tr text lang,
                  sentiment_analysis = analyze_sentiment tb (translate_to_english tr text lang)\<rparr>"
    by simp
  show ?thesis
    by (simp add: r analyze_sentiment_polarity analyze_sentiment_subjectivity
        analyze_sentiment_sentiment format_row_def row_polarity_def)
qed

theorem rounding_in_analyze_sentiment_witness:
  "polarity (sentiment_analysis
      \<lparr>original_text = ''Gut'', detected_language = ''de'', translated_text = ''Good'',
       sentiment_analysis =
         \<lparr>sentiment = ''positive'', polarity = Float 0.1, subjectivity = Float 0.46\<rparr>\<rparr>) =
     py_round2 (Float 0.104) \<and>
   subjectivity (sentiment_analysis
      \<lparr>original_text = ''Gut'', detected_language = ''de'', translated_text = ''Good'',
       sentiment_analysis =
         \<lparr>sentiment = ''positive'', polarity = Float 0.1, subjectivity = Float 0.46\<rparr>\<rparr>) =
     py_round2 (Float 0.456)"
proof -
  let ?d = "(\<lambda>t. Inr ''de'') :: detector"
  let ?tr = "(\<lambda>t s g. Inr [''translatedText'' \<mapsto> ''Good'']) :: translator"
  let ?tb = "(\<lambda>t. (Float 0.104, Float 0.456)) :: scorer"
  let ?r = "\<lparr>original_text = ''Gut'', detected_language = ''de'', translated_text = ''Good'',
             sentiment_analysis =
               \<lparr>sentiment = ''positive'', polarity = Float 0.1, subjectivity = Float 0.46\<rparr>\<rparr>"
  have p: "process_comment ?d ?tr ?tb ''Gut'' = Inr (Some ?r)"
    by code_simp
  from rounding_in_analyze_sentiment [of ?d ?tr ?tb "''Gut''" ?r, OF p]
  have "polarity (sentiment_analysis ?r) = py_round2 (fst (?tb (translated_text ?r))) \<and>
        subjectivity (sentiment_analysis ?r) = py_round2 (snd (?tb (translated_text ?r)))"
    by blast
  then show ?thesis by (simp only: fst_conv snd_conv)
qed

subsection \<open>The report\<close>

lemma append_rows_concat: "append_rows b rs = b @ concat (map format_row rs)"
  by (induction rs arbitrary: b) simp_all

lemma comment_body_concat:
  "comment_body results = report_header @ concat (map format_row results)"
  by (simp add: comment_body_def append_rows_concat)

lemma digit_char_not_newline: "d < 10 \<Longrightarrow> digit_char d \<noteq> CHR 0x0A"
proof
  assume d: "d < 10" and eq: "digit_char d = CHR 0x0A"
  have "of_char (digit_char d) = (48 + d) mod 256"
    by (simp add: digit_char_def)
  with d have "of_char (digit_char d) = 48 + d" by simp
  with eq show False by simp
qed

lemma str_nat_no_newline: "CHR 0x0A \<notin> set (str_nat n)"
proof (induction n rule: str_nat.induct)
  case (1 n)
  show ?case
  proof (cases "n < 10")
    case True
    then show ?thesis
      by (subst str_nat.simps) (simp add: digit_char_not_newline [THEN not_sym])
  next
    case False
    with 1 show ?thesis
      by (subst str_nat.simps) (simp add: digit_char_not_newline [THEN not_sym])
  qed
qed

lemma frac_digits_no_newline:
  "0 \<le> f \<Longrightarrow> f < 1 \<Longrightarrow> CHR 0x0A \<notin> set (frac_digits n f)"
proof (induction n arbitrary: f)
  case 0
  show ?case by simp
next
  case (Suc n)
  define d where "d = \<lfloor>f * 10\<rfloor>"
  from Suc.prems have d0: "0 \<le> d" and d10: "d < 10"
    by (simp_all add: d_def floor_less_iff)
  then have "nat d < 10" by simp
  then have c: "digit_char (nat d) \<noteq> CHR 0x0A" by (rule digit_char_not_newline)
  have "0 \<le> f * 10 - of_int d" "f * 10 - of_int d < 1"
    unfolding d_def by linarith+
  then have "CHR 0x0A \<notin> set (frac_digits n (f * 10 - of_int d))" by (rule Suc.IH)
  with c show ?case by (auto simp: Let_def d_def)
qed

lemma str_float_no_newline: "CHR 0x0A \<notin> set (str_float p)"
proof (cases p)
  case NegZero
  then show ?thesis by simp
next
  case (Float x)
  have "0 \<le> \<bar>x\<bar> - of_int \<lfloor>\<bar>x\<bar>\<rfloor>" "\<bar>x\<bar> - of_int \<lfloor>\<bar>x\<bar>\<rfloor> < 1" by linarith+
  then have "CHR 0x0A \<notin> set (frac_digits 17 (\<bar>x\<bar> - of_int \<lfloor>\<bar>x\<bar>\<rfloor>))"
    by (rule frac_digits_no_newline)
  with Float show ?thesis by (simp add: Let_def str_nat_no_newline)
qed

lemma upper_char_newline: "upper_char c = CHR 0x0A \<Longrightarrow> c = CHR 0x0A"
proof (cases "(97::nat) \<le> of_char c \<and> of_char c \<le> (122::nat)")
  case False
  then have "upper_char c = c" unfolding upper_char_def by (rule if_not_P)
  moreover assume "upper_char c = CHR 0x0A"
  ultimately show ?thesis by simp
next
  case True
  assume "upper_char c = CHR 0x0A"
  moreover from True have "upper_char c = char_of (of_char c - (32::nat))"
    unfolding upper_char_def by (rule if_P)
  ultimately have "char_of (of_char c - (32::nat)) = CHR 0x0A" by simp
  then have "of_char (char_of (of_char c - (32::nat)) :: char) = (of_char (CHR 0x0A) :: nat)" by simp
  then have m: "(of_char c - (32::nat)) mod 256 = 10" by simp
  from True have "of_char c - (32::nat) < 256" by arith
  then have "(of_char c - (32::nat)) mod 256 = of_char c - 32" by (rule mod_less)
  with m have "of_char c - (32::nat) = 10" by simp
  with True have False by arith
  then show ?thesis ..
qed

lemma upper_no_newline: "CHR 0x0A \<notin> set s \<Longrightarrow> CHR 0x0A \<notin> set (upper s)"
  by (auto simp: upper_def dest: upper_char_newline [OF sym])

lemma row_original_no_newline:
  "CHR 0x0A \<notin> set (original_text r) \<Longrightarrow> CHR 0x0A \<notin> set (row_original r)"
  by (auto simp: row_original_def dest: in_set_takeD)

lemma format_row_one_line:
  assumes "CHR 0x0A \<notin> set (original_text r)"
    and "CHR 0x0A \<notin> set (sentiment (sentiment_analysis r))"
  shows "count_list (format_row r) (CHR 0x0A) = 1"
proof -
  from assms(1) have o: "count_list (row_original r) (CHR 0x0A) = 0"
    by (simp add: row_original_no_newline)
  from assms(2) have s: "count_list (row_sentiment r) (CHR 0x0A) = 0"
    by (simp add: upper_no_newline row_sentiment_def)
  have l: "count_list (row_lang_name r) (CHR 0x0A) = 0"
    by (simp add: row_lang_name_def)
  have p: "count_list (str_float (row_polarity r)) (CHR 0x0A) = 0"
    by (simp add: str_float_no_newline)
  show ?thesis
    by (simp add: format_row_def o s l p)
qed

lemma report_header_lines: "count_list report_header (CHR 0x0A) = 4"
  by (simp add: report_header_def)

lemma rows_line_count:
  "\<forall>r \<in> set results. CHR 0x0A \<notin> set (original_text r) \<and>
       CHR 0x0A \<notin> set (sentiment (sentiment_analysis r)) \<Longrightarrow>
   count_list (concat (map format_row results)) (CHR 0x0A) = length results"
  by (induction results) (simp_all add: format_row_one_line)

lemma format_row_shape:
  "format_row r =
     ''| '' @ row_original r @ '' | '' @ row_lang_name r @ '' | '' @ row_sentiment r @
     '' | '' @ str_float (row_polarity r) @ '' |'' @ [CHR 0x0A]"
  by (simp add: format_row_def)

lemma comment_body_nth:
  assumes "i < length results"
  shows "comment_body results =
     comment_body (take i results) @ format_row (results ! i) @
     concat (map format_row (drop (Suc i) results))"
proof -
  from assms have "results = take i results @ results ! i # drop (Suc i) results"
    by (rule id_take_nth_drop)
  then have "concat (map format_row results) =
      concat (map format_row (take i results @ results ! i # drop (Suc i) results))"
    by (rule arg_cong)
  then show ?thesis by (simp add: comment_body_concat)
qed

text \<open>
  Claim C5. For every sequence of records, the body of the report is the header followed
  by one row per record, in the order of the records: the row of the record at position
  \<open>i\<close> comes after the rows of the records before it and before the rows of the records
  after it, whatever their scores. Each row is a line of its own: it starts with a bar,
  holds the four cells and ends with a line break, so that, for records whose text and
  sentiment hold no line break, the report has one line per record after the four lines
  of the header. For the empty sequence \<open>post_sentiment_comment\<close> sends nothing.
\<close>

theorem report_rows_in_order:
  "post_sentiment_comment tok repo pr [] = None \<and>
   map_option body (post_sentiment_comment tok repo pr (r # rs)) =
     Some (report_header @ concat (map format_row (r # rs))) \<and>
   comment_body results = report_header @ concat (map format_row results) \<and>
   comment_body (results @ [r]) = comment_body results @ format_row r \<and>
   (\<forall>i. i < length results \<longrightarrow>
      comment_body results =
        comment_body (take i results) @ format_row (results ! i) @
        concat (map format_row (drop (Suc i) results))) \<and>
   format_row r =
     ''| '' @ row_original r @ '' | '' @ row_lang_name r @ '' | '' @ row_sentiment r @
     '' | '' @ str_float (row_polarity r) @ '' |'' @ [CHR 0x0A] \<and>
   format_row r \<noteq> [] \<and> take 2 (format_row r) = ''| '' \<and> last (format_row r) = CHR 0x0A \<and>
   ((\<forall>x \<in> set results. CHR 0x0A \<notin> set (original_text x) \<and>
                          CHR 0x0A \<notin> set (sentiment (sentiment_analysis x))) \<longrightarrow>
      count_list (comment_body results) (CHR 0x0A) = 4 + length results)"
proof -
  have 1: "post_sentiment_comment tok repo pr [] = None"
    by (simp add: post_sentiment_comment_def)
  have 2: "map_option body (post_sentiment_comment tok repo pr (r # rs)) =
     Some (report_header @ concat (map format_row (r # rs)))"
    by (simp add: post_sentiment_comment_def comment_body_concat)
  have 3: "comment_body results = report_header @ concat (map format_row results)"
    by (rule comment_body_concat)
  have 4: "comment_body (results @ [r]) = comment_body results @ format_row r"
    by (simp add: comment_body_concat)
  have 5: "\<forall>i. i < length results \<longrightarrow>
      comment_body results =
        comment_body (take i results) @ format_row (results ! i) @
        concat (map format_row (drop (Suc i) results))"
    by (intro allI impI) (rule comment_body_nth)
  have 6: "format_row r =
     ''| '' @ row_original r @ '' | '' @ row_lang_name r @ '' | '' @ row_sentiment r @
     '' | '' @ str_float (row_polarity r) @ '' |'' @ [CHR 0x0A]"
    by (rule format_row_shape)
  have 7: "format_row r \<noteq> []" "take 2 (format_row r) = ''| ''"
    "last (format_row r) = CHR 0x0A"
    by (simp_all add: format_row_def)
  have 8: "(\<forall>x \<in> set results. CHR 0x0A \<notin> set (original_text x) \<and>
                          CHR 0x0A \<notin> set (sentiment (sentiment_analysis x))) \<longrightarrow>
      count_list (comment_body results) (CHR 0x0A) = 4 + length results"
    by (simp add: comment_body_concat report_header_lines rows_line_count)
  from 1 2 3 4 5 6 7 8 show ?thesis by blast
qed

theorem report_rows_in_order_witness:
  "count_list
     (comment_body
        [\<lparr>original_text = ''Sehr gut'', detected_language = ''de'', translated_text = ''Very good'',
          sentiment_analysis = \<lparr>sentiment = ''positive'', polarity = Float 0.91,
                                subjectivity = Float 0.78\<rparr>\<rparr>,
         \<lparr>original_text = ''Muy mal'', detected_language = ''es'', translated_text = ''Very bad'',
          sentiment_analysis = \<lparr>sentiment = ''negative'', polarity = Float (- 0.91),
                                subjectivity = Float 0.87\<rparr>\<rparr>])
     (CHR 0x0A) = 6 \<and>
   comment_body
     [\<lparr>original_text = ''Sehr gut'', detected_language = ''de'', translated_text = ''Very good'',
       sentiment_analysis = \<lparr>sentiment = ''positive'', polarity = Float 0.91,
                             subjectivity = Float 0.78\<rparr>\<rparr>,
      \<lparr>original_text = ''Muy mal'', detected_language = ''es'', translated_text = ''Very bad'',
       sentiment_analysis = \<lparr>sentiment = ''negative'', polarity = Float (- 0.91),
                             subjectivity = Float 0.87\<rparr>\<rparr>] =
   report_header @
   ''| Sehr gut | German | POSITIVE | 0.91 |'' @ [CHR 0x0A] @
   ''| Muy mal | Spanish | NEGATIVE | -0.91 |'' @ [CHR 0x0A]"
proof -
  let ?a = "\<lparr>original_text = ''Sehr gut'', detected_language = ''de'', translated_text = ''Very good'',
          sentiment_analysis = \<lparr>sentiment = ''positive'', polarity = Float 0.91,
                                subjectivity = Float 0.78\<rparr>\<rparr>"
  let ?b = "\<lparr>original_text = ''Muy mal'', detected_language = ''es'', translated_text = ''Very bad'',
          sentiment_analysis = \<lparr>sentiment = ''negative'', polarity = Float (- 0.91),
                                subjectivity = Float 0.87\<rparr>\<rparr>"
  have i: "1 < length [?a, ?b]" by simp
  have n: "\<forall>x \<in> set [?a, ?b]. CHR 0x0A \<notin> set (original_text x) \<and>
                          CHR 0x0A \<notin> set (sentiment (sentiment_analysis x))"
    by simp
  have ra: "format_row ?a = ''| Sehr gut | German | POSITIVE | 0.91 |'' @ [CHR 0x0A]"
    by code_simp
  have rb: "format_row ?b = ''| Muy mal | Spanish | NEGATIVE | -0.91 |'' @ [CHR 0x0A]"
    by code_simp
  from report_rows_in_order [of _ _ _ _ _ "[?a, ?b]"] n
  have c: "count_list (comment_body [?a, ?b]) (CHR 0x0A) = 4 + length [?a, ?b]" by blast
  from report_rows_in_order [of _ _ _ _ _ "[?a, ?b]"] i
  have "comment_body [?a, ?b] =
        comment_body (take 1 [?a, ?b]) @ format_row ([?a, ?b] ! 1) @
        concat (map format_row (drop (Suc 1) [?a, ?b]))"
    by blast
  moreover have "comment_body (take 1 [?a, ?b]) = report_header @ format_row ?a"
    by (simp add: comment_body_def)
  ultimately have "comment_body [?a, ?b] = report_header @ format_row ?a @ format_row ?b"
    by simp
  then have b: "comment_body [?a, ?b] =
      report_header @ ''| Sehr gut | German | POSITIVE | 0.91 |'' @ [CHR 0x0A] @
      ''| Muy mal | Spanish | NEGATIVE | -0.91 |'' @ [CHR 0x0A]"
    by (simp only: ra rb append_assoc)
  from c have "count_list (comment_body [?a, ?b]) (CHR 0x0A) = 6" by simp
  with b show ?thesis by blast
qed



lemma frac_digits_tenths:
  assumes "0 < d"
  shows "frac_digits (Suc n) (of_nat d / 10) = [digit_char d]"
proof -
  have "\<lfloor>rat_of_nat d / 10 * 10\<rfloor> = int d" by simp
  moreover have "rat_of_nat d / 10 \<noteq> 0" using assms by simp
  ultimately show ?thesis
    by (cases n) (simp_all add: Let_def)
qed

lemma frac_digits_hundredths:
  assumes "0 < m"
  shows "frac_digits (Suc (Suc n)) (of_nat m / 100) =
     (if m mod 10 = 0 then [digit_char (m div 10)]
      else [digit_char (m div 10), digit_char (m mod 10)])"
proof -
  have nz: "rat_of_nat m / 100 \<noteq> 0" using assms by simp
  have t: "rat_of_nat m / 100 * 10 = rat_of_nat m / rat_of_nat 10" by simp
  have fl: "\<lfloor>rat_of_nat m / 100 * 10\<rfloor> = int (m div 10)"
    unfolding t by (simp only: floor_divide_of_nat_eq)
  have "rat_of_nat m = rat_of_nat (m div 10 * 10 + m mod 10)" by simp
  then have "rat_of_nat m = rat_of_nat (m div 10) * 10 + rat_of_nat (m mod 10)"
    by (simp only: of_nat_add of_nat_mult of_nat_numeral)
  then have rest: "rat_of_nat m / 100 * 10 - of_int (int (m div 10)) = rat_of_nat (m mod 10) / 10"
    by (simp add: add_divide_distrib)
  have step: "frac_digits (Suc (Suc n)) (of_nat m / 100) =
      digit_char (m div 10) # frac_digits (Suc n) (rat_of_nat (m mod 10) / 10)"
    by (subst frac_digits.simps(2)) (simp only: nz if_False Let_def fl rest nat_int)
  show ?thesis
  proof (cases "m mod 10 = 0")
    case True
    then have "frac_digits (Suc n) (rat_of_nat (m mod 10) / 10) = []" by simp
    with True show ?thesis by (simp add: step del: frac_digits.simps)
  next
    case False
    then have "0 < m mod 10" by simp
    then have "frac_digits (Suc n) (rat_of_nat (m mod 10) / 10) = [digit_char (m mod 10)]"
      by (rule frac_digits_tenths)
    with False show ?thesis by (simp only: step if_False)
  qed
qed

lemma str_float_hundredths:
  "str_float (Float (of_nat h / 100)) =
     str_nat (h div 100) @ ''.'' @
     (if h mod 100 = 0 then ''0''
      else if h mod 10 = 0 then [digit_char (h mod 100 div 10)]
      else [digit_char (h mod 100 div 10), digit_char (h mod 10)])"
proof -
  have a: "\<bar>rat_of_nat h / 100\<bar> = rat_of_nat h / rat_of_nat 100" by simp
  have w: "\<lfloor>rat_of_nat h / rat_of_nat 100\<rfloor> = int (h div 100)"
    by (simp only: floor_divide_of_nat_eq)
  have "rat_of_nat h = rat_of_nat (h div 100 * 100 + h mod 100)" by simp
  then have "rat_of_nat h = rat_of_nat (h div 100) * 100 + rat_of_nat (h mod 100)"
    by (simp only: of_nat_add of_nat_mult of_nat_numeral)
  then have f: "rat_of_nat h / rat_of_nat 100 - of_int (int (h div 100)) = rat_of_nat (h mod 100) / 100"
    by (simp add: add_divide_distrib)
  have s: "str_float (Float (of_nat h / 100)) =
     str_nat (h div 100) @ ''.'' @
     (if rat_of_nat (h mod 100) / 100 = 0 then ''0''
      else frac_digits 17 (rat_of_nat (h mod 100) / 100))"
    unfolding str_float.simps a Let_def w f by simp
  have n: "(17::nat) = Suc (Suc 15)" by simp
  show ?thesis
  proof (cases "h mod 100 = 0")
    case True
    then show ?thesis by (simp add: s del: str_float.simps)
  next
    case False
    then have "0 < h mod 100" by simp
    then have "frac_digits (Suc (Suc 15)) (rat_of_nat (h mod 100) / 100) =
     (if h mod 100 mod 10 = 0 then [digit_char (h mod 100 div 10)]
      else [digit_char (h mod 100 div 10), digit_char (h mod 100 mod 10)])"
      by (rule frac_digits_hundredths)
    moreover have "h mod 100 mod 10 = h mod 10"
      by (simp add: mod_mod_cancel)
    ultimately have "frac_digits 17 (rat_of_nat (h mod 100) / 100) =
     (if h mod 10 = 0 then [digit_char (h mod 100 div 10)]
      else [digit_char (h mod 100 div 10), digit_char (h mod 10)])"
      by (simp only: n)
    with False show ?thesis by (simp add: s del: str_float.simps)
  qed
qed

lemma str_float_neg: "0 < y \<Longrightarrow> str_float (Float (- y)) = ''-'' @ str_float (Float y)"
  by (simp add: Let_def)

lemma str_float_int_hundredths:
  "str_float (Float (of_int k / 100)) =
     (if k < 0 then ''-'' else '''') @ str_nat (nat \<bar>k\<bar> div 100) @ ''.'' @
     (if nat \<bar>k\<bar> mod 100 = 0 then ''0''
      else if nat \<bar>k\<bar> mod 10 = 0 then [digit_char (nat \<bar>k\<bar> mod 100 div 10)]
      else [digit_char (nat \<bar>k\<bar> mod 100 div 10), digit_char (nat \<bar>k\<bar> mod 10)])"
proof (cases "k < 0")
  case False
  then have "rat_of_int k = rat_of_nat (nat \<bar>k\<bar>)" by simp
  with False show ?thesis by (simp only: str_float_hundredths if_False append_Nil)
next
  case True
  then have k: "rat_of_int k / 100 = - (rat_of_nat (nat \<bar>k\<bar>) / 100)" by simp
  from True have "0 < rat_of_nat (nat \<bar>k\<bar>) / 100" by simp
  then have "str_float (Float (- (rat_of_nat (nat \<bar>k\<bar>) / 100))) =
      ''-'' @ str_float (Float (rat_of_nat (nat \<bar>k\<bar>) / 100))"
    by (rule str_float_neg)
  with True show ?thesis by (simp only: k str_float_hundredths if_True)
qed

lemma upper_sentiments:
  "upper ''positive'' = ''POSITIVE''" "upper ''negative'' = ''NEGATIVE''"
  "upper ''neutral'' = ''NEUTRAL''"
  by code_simp+

text \<open>
  Claim C7, as the code has it. The claim gives the row of the German example, with
  polarity \<open>0.8\<close>, as \<open>| Das ist gro[0xDF]artig!... | German | POSITIVE | 0.80 |\<close>. The code
  writes \<open>| Das ist gro[0xDF]artig! | German | POSITIVE | 0.8 |\<close>: a polarity of \<open>0.8\<close> is
  displayed as \<open>0.8\<close>, not \<open>0.80\<close>, and a text of 18 characters gets no ellipsis.
\<close>

theorem report_row_counterexample:
  "format_row \<lparr>original_text = ''Das ist gro'' @ [CHR 0xDF] @ ''artig!'', detected_language = ''de'',
               translated_text = ''That is great!'',
               sentiment_analysis =
                 \<lparr>sentiment = ''positive'', polarity = Float 0.8, subjectivity = Float 0.75\<rparr>\<rparr> =
     ''| Das ist gro'' @ [CHR 0xDF] @ ''artig! | German | POSITIVE | 0.8 |'' @ [CHR 0x0A] \<and>
   format_row \<lparr>original_text = ''Das ist gro'' @ [CHR 0xDF] @ ''artig!'', detected_language = ''de'',
               translated_text = ''That is great!'',
               sentiment_analysis =
                 \<lparr>sentiment = ''positive'', polarity = Float 0.8, subjectivity = Float 0.75\<rparr>\<rparr> \<noteq>
     ''| Das ist gro'' @ [CHR 0xDF] @ ''artig!... | German | POSITIVE | 0.80 |'' @ [CHR 0x0A] \<and>
   str_float (py_round2 (Float 0.8)) = ''0.8'' \<and>
   str_float (py_round2 (Float 0.8)) \<noteq> ''0.80''"
  by code_simp

text \<open>
  Claim C7, amended. Each row shows the language name (German for \<open>de\<close>, Spanish
  otherwise, so for \<open>es\<close>), the sentiment upper-cased (\<open>POSITIVE\<close>, \<open>NEGATIVE\<close>,
  \<open>NEUTRAL\<close>), and the stored polarity as \<open>str\<close> writes a float. A polarity in
  \<open>[-1, 1]\<close> is stored as \<open>-0.0\<close> or as a whole number \<open>k\<close> of hundredths from \<open>-100\<close> to
  \<open>100\<close>, and such a value is written with its sign if negative, one digit after the point
  when the hundredths digit is zero and two otherwise, never a padding zero: \<open>0.8\<close> is
  displayed as \<open>0.8\<close>, \<open>-0.25\<close> as \<open>-0.25\<close>, \<open>1.0\<close> as \<open>1.0\<close>. A text of at most 50
  characters is shown whole, with no ellipsis. The row of the German example is
  \<open>| Das ist gro[0xDF]artig! | German | POSITIVE | 0.8 |\<close>.
\<close>

theorem report_row_rendering:
  "format_row r =
     ''| '' @ row_original r @ '' | '' @
     (if detected_language r = ''de'' then ''German'' else ''Spanish'') @ '' | '' @
     upper (sentiment (sentiment_analysis r)) @ '' | '' @
     str_float (polarity (sentiment_analysis r)) @ '' |'' @ [CHR 0x0A] \<and>
   (length (original_text r) \<le> 50 \<longrightarrow> row_original r = original_text r) \<and>
   upper ''positive'' = ''POSITIVE'' \<and> upper ''negative'' = ''NEGATIVE'' \<and>
   upper ''neutral'' = ''NEUTRAL'' \<and>
   (- 1 \<le> fval p \<and> fval p \<le> 1 \<longrightarrow>
      py_round2 p = NegZero \<or>
      (\<exists>k. - 100 \<le> k \<and> k \<le> 100 \<and> py_round2 p = Float (of_int k / 100))) \<and>
   str_float NegZero = ''-0.0'' \<and>
   (- 100 \<le> k \<and> k \<le> 100 \<longrightarrow>
      str_float (Float (of_int k / 100)) =
        (if k < 0 then ''-'' else '''') @ str_nat (nat \<bar>k\<bar> div 100) @ ''.'' @
        (if nat \<bar>k\<bar> mod 100 = 0 then ''0''
         else if nat \<bar>k\<bar> mod 10 = 0 then [digit_char (nat \<bar>k\<bar> mod 100 div 10)]
         else [digit_char (nat \<bar>k\<bar> mod 100 div 10), digit_char (nat \<bar>k\<bar> mod 10)])) \<and>
   str_float (py_round2 (Float 0.8)) = ''0.8'' \<and>
   str_float (py_round2 (Float 0.256)) = ''0.26'' \<and>
   str_float (py_round2 (Float (- 0.25))) = ''-0.25'' \<and>
   str_float (py_round2 (Float (- 0.7))) = ''-0.7'' \<and>
   str_float (py_round2 (Float (- 0.004))) = ''-0.0'' \<and>
   str_float (py_round2 (Float 1)) = ''1.0'' \<and>
   format_row \<lparr>original_text = ''Das ist gro'' @ [CHR 0xDF] @ ''artig!'', detected_language = ''de'',
               translated_text = ''That is great!'',
               sentiment_analysis =
                 \<lparr>sentiment = ''positive'', polarity = Float 0.8, subjectivity = Float 0.75\<rparr>\<rparr> =
     ''| Das ist gro'' @ [CHR 0xDF] @ ''artig! | German | POSITIVE | 0.8 |'' @ [CHR 0x0A]"
proof -
  have row: "format_row r =
     ''| '' @ row_original r @ '' | '' @
     (if detected_language r = ''de'' then ''German'' else ''Spanish'') @ '' | '' @
     upper (sentiment (sentiment_analysis r)) @ '' | '' @
     str_float (polarity (sentiment_analysis r)) @ '' |'' @ [CHR 0x0A]"
    by (simp add: format_row_def row_lang_name_def row_sentiment_def row_polarity_def)
  have short: "length (original_text r) \<le> 50 \<longrightarrow> row_original r = original_text r"
    by (simp add: row_original_def)
  have stored: "- 1 \<le> fval p \<and> fval p \<le> 1 \<longrightarrow>
      py_round2 p = NegZero \<or>
      (\<exists>k. - 100 \<le> k \<and> k \<le> 100 \<and> py_round2 p = Float (of_int k / 100))"
    using py_round2_range [of p] by blast
  have nz: "str_float NegZero = ''-0.0''" by simp
  have fl: "- 100 \<le> k \<and> k \<le> 100 \<longrightarrow>
      str_float (Float (of_int k / 100)) =
        (if k < 0 then ''-'' else '''') @ str_nat (nat \<bar>k\<bar> div 100) @ ''.'' @
        (if nat \<bar>k\<bar> mod 100 = 0 then ''0''
         else if nat \<bar>k\<bar> mod 10 = 0 then [digit_char (nat \<bar>k\<bar> mod 100 div 10)]
         else [digit_char (nat \<bar>k\<bar> mod 100 div 10), digit_char (nat \<bar>k\<bar> mod 10)])"
    using str_float_int_hundredths [of k] by blast
  have e1: "str_float (py_round2 (Float 0.8)) = ''0.8''" by code_simp
  have e2: "str_float (py_round2 (Float 0.256)) = ''0.26''" by code_simp
  have e3: "str_float (py_round2 (Float (- 0.25))) = ''-0.25''" by code_simp
  have e4: "str_float (py_round2 (Float (- 0.7))) = ''-0.7''" by code_simp
  have e5: "str_float (py_round2 (Float (- 0.004))) = ''-0.0''" by code_simp
  have e6: "str_float (py_round2 (Float 1)) = ''1.0''" by code_simp
  have ex: "format_row \<lparr>original_text = ''Das ist gro'' @ [CHR 0xDF] @ ''artig!'', detected_language = ''de'',
               translated_text = ''That is great!'',
               sentiment_analysis =
                 \<lparr>sentiment = ''positive'', polarity = Float 0.8, subjectivity = Float 0.75\<rparr>\<rparr> =
     ''| Das ist gro'' @ [CHR 0xDF] @ ''artig! | German | POSITIVE | 0.8 |'' @ [CHR 0x0A]"
    by code_simp
  from row short upper_sentiments stored nz fl e1 e2 e3 e4 e5 e6 ex show ?thesis by blast
qed

theorem report_row_rendering_witness:
  "row_original
     \<lparr>original_text = ''Das ist gro'' @ [CHR 0xDF] @ ''artig!'', detected_language = ''de'',
      translated_text = ''That is great!'',
      sentiment_analysis =
        \<lparr>sentiment = ''positive'', polarity = Float 0.8, subjectivity = Float 0.75\<rparr>\<rparr> =
     ''Das ist gro'' @ [CHR 0xDF] @ ''artig!'' \<and>
   (py_round2 (Float (- 0.175)) = NegZero \<or>
    (\<exists>k. - 100 \<le> k \<and> k \<le> 100 \<and> py_round2 (Float (- 0.175)) = Float (of_int k / 100))) \<and>
   str_float (Float (of_int (- 17) / 100)) = ''-0.17''"
proof -
  let ?r = "\<lparr>original_text = ''Das ist gro'' @ [CHR 0xDF] @ ''artig!'', detected_language = ''de'',
      translated_text = ''That is great!'',
      sentiment_analysis =
        \<lparr>sentiment = ''positive'', polarity = Float 0.8, subjectivity = Float 0.75\<rparr>\<rparr>"
  let ?p = "Float (- 0.175)"
  let ?k = "- 17 :: int"
  have l: "length (original_text ?r) \<le> 50" by simp
  have p: "- 1 \<le> fval ?p \<and> fval ?p \<le> 1" by simp
  have k: "- 100 \<le> ?k \<and> ?k \<le> 100" by simp
  have d: "(if ?k < 0 then ''-'' else '''') @ str_nat (nat \<bar>?k\<bar> div 100) @ ''.'' @
        (if nat \<bar>?k\<bar> mod 100 = 0 then ''0''
         else if nat \<bar>?k\<bar> mod 10 = 0 then [digit_char (nat \<bar>?k\<bar> mod 100 div 10)]
         else [digit_char (nat \<bar>?k\<bar> mod 100 div 10), digit_char (nat \<bar>?k\<bar> mod 10)]) = ''-0.17''"
    by code_simp
  from report_row_rendering [of ?r ?p ?k] l
  have 1: "row_original ?r = original_text ?r" by blast
  from report_row_rendering [of ?r ?p ?k] p
  have 2: "py_round2 ?p = NegZero \<or>
      (\<exists>k. - 100 \<le> k \<and> k \<le> 100 \<and> py_round2 ?p = Float (of_int k / 100))" by blast
  from report_row_rendering [of ?r ?p ?k] k
  have "str_float (Float (of_int ?k / 100)) =
        (if ?k < 0 then ''-'' else '''') @ str_nat (nat \<bar>?k\<bar> div 100) @ ''.'' @
        (if nat \<bar>?k\<bar> mod 100 = 0 then ''0''
         else if nat \<bar>?k\<bar> mod 10 = 0 then [digit_char (nat \<bar>?k\<bar> mod 100 div 10)]
         else [digit_char (nat \<bar>?k\<bar> mod 100 div 10), digit_char (nat \<bar>?k\<bar> mod 10)])"
    by blast
  then have 3: "str_float (Float (of_int ?k / 100)) = ''-0.17''" by (simp only: d)
  from 1 have 1: "row_original ?r = ''Das ist gro'' @ [CHR 0xDF] @ ''artig!''" by simp
  from 1 2 3 show ?thesis by blast
qed



lemma row_original_long:
  "50 < length (original_text r) \<Longrightarrow> row_original r = take 50 (original_text r) @ ''...''"
  by (simp add: row_original_def)

lemma row_original_short:
  "length (original_text r) \<le> 50 \<Longrightarrow> row_original r = original_text r"
  by (simp add: row_original_def)

text \<open>
  Claim C8. In a row, the original text is cut to its first 50 characters followed by
  \<open>...\<close> if and only if it is longer than 50 characters; a text of 50 characters or fewer
  appears unchanged. The cut is made for the row only: the record that \<open>process_comment\<close>
  returns keeps the whole text in \<open>original_text\<close>.
\<close>

theorem row_original_truncation:
  "(row_original r = take 50 (original_text r) @ ''...'' \<longleftrightarrow> 50 < length (original_text r)) \<and>
   (length (original_text r) \<le> 50 \<longrightarrow> row_original r = original_text r) \<and>
   (\<exists>rest. format_row r = ''| '' @ row_original r @ '' | '' @ rest) \<and>
   (process_comment detect tr tb text = Inr (Some r') \<longrightarrow> original_text r' = text)"
proof (intro conjI impI)
  show "row_original r = take 50 (original_text r) @ ''...'' \<longleftrightarrow> 50 < length (original_text r)"
  proof
    assume eq: "row_original r = take 50 (original_text r) @ ''...''"
    show "50 < length (original_text r)"
    proof (rule ccontr)
      assume "\<not> 50 < length (original_text r)"
      then have le: "length (original_text r) \<le> 50" by simp
      then have "row_original r = original_text r" by (rule row_original_short)
      with eq have "original_text r = take 50 (original_text r) @ ''...''" by simp
      then have "length (original_text r) = length (take 50 (original_text r) @ ''...'')"
        by (rule arg_cong)
      moreover from le have "length (take 50 (original_text r) @ ''...'') =
          length (original_text r) + 3"
        by simp
      ultimately show False by arith
    qed
  next
    assume "50 < length (original_text r)"
    then show "row_original r = take 50 (original_text r) @ ''...''"
      by (rule row_original_long)
  qed
next
  assume "length (original_text r) \<le> 50"
  then show "row_original r = original_text r" by (rule row_original_short)
next
  show "\<exists>rest. format_row r = ''| '' @ row_original r @ '' | '' @ rest"
    by (simp add: format_row_def)
next
  assume p: "process_comment detect tr tb text = Inr (Some r')"
  show "original_text r' = text"
  proof (cases "detect_language detect text")
    case (Inl e)
    with p show ?thesis by (simp add: process_comment_def)
  next
    case (Inr l)
    show ?thesis
    proof (cases l)
      case None
      with Inr p show ?thesis by (simp add: process_comment_def)
    next
      case (Some lang)
      with Inr have "detect_language detect text = Inr (Some lang)" by simp
      from process_comment_Some [OF this, of tr tb] p show ?thesis by auto
    qed
  qed
qed

theorem row_original_truncation_witness:
  "row_original
     \<lparr>original_text = ''Diese Funktion ist viel zu lang und sollte unbedingt aufgeteilt werden'',
      detected_language = ''de'',
      translated_text = ''Diese Funktion ist viel zu lang und sollte unbedingt aufgeteilt werden'',
      sentiment_analysis = \<lparr>sentiment = ''neutral'', polarity = Float 0, subjectivity = Float 0\<rparr>\<rparr> =
     ''Diese Funktion ist viel zu lang und sollte unbedin...'' \<and>
   row_original
     \<lparr>original_text = ''Sehr gut'', detected_language = ''de'', translated_text = ''Sehr gut'',
      sentiment_analysis = \<lparr>sentiment = ''neutral'', polarity = Float 0, subjectivity = Float 0\<rparr>\<rparr> =
     ''Sehr gut'' \<and>
   original_text
     \<lparr>original_text = ''Diese Funktion ist viel zu lang und sollte unbedingt aufgeteilt werden'',
      detected_language = ''de'',
      translated_text = ''Diese Funktion ist viel zu lang und sollte unbedingt aufgeteilt werden'',
      sentiment_analysis = \<lparr>sentiment = ''neutral'', polarity = Float 0, subjectivity = Float 0\<rparr>\<rparr> =
     ''Diese Funktion ist viel zu lang und sollte unbedingt aufgeteilt werden''"
proof -
  let ?long = "''Diese Funktion ist viel zu lang und sollte unbedingt aufgeteilt werden''"
  let ?d = "(\<lambda>t. Inr ''de'') :: detector"
  let ?tr = "(\<lambda>t s g. Inl OtherException) :: translator"
  let ?tb = "(\<lambda>t. (Float 0, Float 0)) :: scorer"
  let ?r = "\<lparr>original_text = ?long, detected_language = ''de'', translated_text = ?long,
             sentiment_analysis = \<lparr>sentiment = ''neutral'', polarity = Float 0, subjectivity = Float 0\<rparr>\<rparr>"
  let ?s = "\<lparr>original_text = ''Sehr gut'', detected_language = ''de'', translated_text = ''Sehr gut'',
             sentiment_analysis = \<lparr>sentiment = ''neutral'', polarity = Float 0, subjectivity = Float 0\<rparr>\<rparr>"
  have l: "50 < length (original_text ?r)" by simp
  have t: "take 50 (original_text ?r) @ ''...'' =
           ''Diese Funktion ist viel zu lang und sollte unbedin...''" by simp
  have s: "length (original_text ?s) \<le> 50" by simp
  have p: "process_comment ?d ?tr ?tb ?long = Inr (Some ?r)" by code_simp
  from row_original_truncation [of ?r] l
  have 1: "row_original ?r = take 50 (original_text ?r) @ ''...''" by blast
  from row_original_truncation [of ?s] s
  have 2: "row_original ?s = original_text ?s" by blast
  from row_original_truncation [of ?r ?d ?tr ?tb ?long ?r] p
  have 3: "original_text ?r = ?long" by blast
  from 1 t have 1: "row_original ?r = ''Diese Funktion ist viel zu lang und sollte unbedin...''"
    by (rule trans)
  from 2 have 2: "row_original ?s = ''Sehr gut''" by simp
  from 1 2 3 show ?thesis by blast
qed

text \<open>
  Claim C10. For every record whose \<open>detected_language\<close> is not exactly \<open>de\<close>, whether
  a supported code or not, the row shows the language name \<open>Spanish\<close>. The name is never
  blank, and the report is built and sent for such a record like for any other.
\<close>

theorem unmapped_language_is_spanish:
  "(detected_language r \<noteq> ''de'' \<longrightarrow>
      row_lang_name r = ''Spanish'' \<and>
      format_row r =
        ''| '' @ row_original r @ '' | Spanish | '' @ row_sentiment r @ '' | '' @
        str_float (row_polarity r) @ '' |'' @ [CHR 0x0A]) \<and>
   row_lang_name r \<in> {''German'', ''Spanish''} \<and>
   row_lang_name r \<noteq> [] \<and>
   map_option body (post_sentiment_comment tok repo pr [r]) = Some (report_header @ format_row r)"
  by (simp add: row_lang_name_def format_row_def post_sentiment_comment_def comment_body_def)

theorem unmapped_language_is_spanish_witness:
  "row_lang_name
     \<lparr>original_text = ''Tr'' @ [CHR 0xE8] @ ''s bien'', detected_language = ''fr'',
      translated_text = ''Very good'',
      sentiment_analysis =
        \<lparr>sentiment = ''positive'', polarity = Float 0.91, subjectivity = Float 0.78\<rparr>\<rparr> = ''Spanish'' \<and>
   format_row
     \<lparr>original_text = ''Tr'' @ [CHR 0xE8] @ ''s bien'', detected_language = ''fr'',
      translated_text = ''Very good'',
      sentiment_analysis =
        \<lparr>sentiment = ''positive'', polarity = Float 0.91, subjectivity = Float 0.78\<rparr>\<rparr> =
     ''| Tr'' @ [CHR 0xE8] @ ''s bien | Spanish | POSITIVE | 0.91 |'' @ [CHR 0x0A]"
proof -
  let ?r = "\<lparr>original_text = ''Tr'' @ [CHR 0xE8] @ ''s bien'', detected_language = ''fr'',
      translated_text = ''Very good'',
      sentiment_analysis =
        \<lparr>sentiment = ''positive'', polarity = Float 0.91, subjectivity = Float 0.78\<rparr>\<rparr>"
  have h: "detected_language ?r \<noteq> ''de''" by simp
  have o: "row_original ?r = ''Tr'' @ [CHR 0xE8] @ ''s bien''" by code_simp
  have s: "row_sentiment ?r = ''POSITIVE''" by code_simp
  have p: "str_float (row_polarity ?r) = ''0.91''" by code_simp
  from unmapped_language_is_spanish [of ?r] h
  have "row_lang_name ?r = ''Spanish'' \<and>
        format_row ?r =
        ''| '' @ row_original ?r @ '' | Spanish | '' @ row_sentiment ?r @ '' | '' @
        str_float (row_polarity ?r) @ '' |'' @ [CHR 0x0A]"
    by blast
  then show ?thesis by (simp only: o s p) simp
qed

end
